theory Spec2Isabelle
  imports
    Complex_Main
    "HOL-Library.Product_Lexorder"
    "HOL-Library.List_Lexorder"
    "HOL-Library.Char_ord"
    "HOL-Library.Option_ord"
begin

section \<open>The sales table of \<open>dashboard.py\<close>\<close>

text \<open>
  \<open>dashboard.py\<close> is one linear script over a table of invoice lines: it loads the
  table (\<open>load_data\<close>), narrows it with a boolean mask (\<open>mask\<close>, \<open>filtered_df\<close>),
  reduces it to four numbers and builds seven aggregations for the charts. A data frame
  is modelled as the list of its rows in index order; a row is a record with one field
  per column, named as the column is named in the source.

  Numbers: \<open>Quantity\<close> is an integer column; \<open>UnitPrice\<close> and \<open>TotalPrice\<close> are
  64-bit floats in the source and exact reals here, so every statement about sums,
  products and quotients is a statement of exact arithmetic. Of the raw columns only
  \<open>CustomerID\<close> is nullable (the only column the script cleans with \<open>dropna\<close>).
\<close>

subsection \<open>Timestamps, dates and months\<close>

record timestamp =
  year :: int
  month :: nat
  day :: nat
  hour :: nat
  minute :: nat
  second :: nat

text \<open>A \<open>datetime.date\<close> and a monthly period compare field by field, year first.\<close>

type_synonym date = "int \<times> nat \<times> nat"
type_synonym period = "int \<times> nat"

definition dt_date :: "timestamp \<Rightarrow> date" where
  "dt_date t = (year t, month t, day t)"

definition to_period_M :: "timestamp \<Rightarrow> period" where
  "to_period_M t = (year t, month t)"

definition dt_hour :: "timestamp \<Rightarrow> nat" where
  "dt_hour t = hour t"

subsection \<open>Rows\<close>

text \<open>
  A row as \<open>read_csv\<close> delivers it; the type of \<open>InvoiceDate\<close> is a parameter, since
  the loader replaces the text of that column by parsed timestamps.
\<close>

record 'd csv_row =
  InvoiceNo :: string
  Description :: string
  Quantity :: int
  InvoiceDate :: 'd
  UnitPrice :: real
  CustomerID :: "int option"
  Country :: string

text \<open>A loaded row has the derived column \<open>TotalPrice\<close> as well.\<close>

record sales_row = "timestamp csv_row" +
  TotalPrice :: real

type_synonym data_frame = "sales_row list"

subsection \<open>Library operations on columns and frames\<close>

text \<open>
  \<open>drop_duplicates\<close> keeps the first occurrence of every row (\<open>keep='first'\<close>, the
  default) and the order of the rows it keeps.
\<close>

definition keep_first :: "'a list \<Rightarrow> 'a \<Rightarrow> 'a list" where
  "keep_first seen x = (if x \<in> set seen then seen else seen @ [x])"

definition drop_duplicates :: "'a list \<Rightarrow> 'a list" where
  "drop_duplicates xs = foldl keep_first [] xs"

text \<open>Boolean indexing \<open>df[mask]\<close>: the rows whose mask entry is true, in order.\<close>

definition boolean_index :: "'a list \<Rightarrow> bool list \<Rightarrow> 'a list" where
  "boolean_index df m = map fst (filter snd (zip df m))"

text \<open>\<open>nunique\<close>: the number of distinct values of a column.\<close>

definition nunique :: "'a list \<Rightarrow> nat" where
  "nunique xs = length (remdups xs)"

text \<open>On a nullable column \<open>nunique\<close> does not count the missing value.\<close>

definition nunique_dropna :: "'a option list \<Rightarrow> nat" where
  "nunique_dropna xs = nunique (filter (\<lambda>x. x \<noteq> None) xs)"

subsection \<open>The loader\<close>

datatype load_error = ReadError | ParseError

text \<open>
  \<open>load_data\<close>, lines 49 to 56. The outcome of \<open>read_csv\<close> (the rows, or a failure
  for a file that is absent, unreadable or of another shape) and the parser
  \<open>pd.to_datetime\<close> (which raises on a text it cannot read) are parameters. The steps
  keep the order of the source: rows without customer are dropped, then rows whose
  quantity is not positive, then the dates of the remaining rows are parsed, the total is
  derived, and duplicates are removed last.
\<close>

definition dropna_CustomerID :: "'d csv_row list \<Rightarrow> 'd csv_row list" where
  "dropna_CustomerID df = filter (\<lambda>r. CustomerID r \<noteq> None) df"

definition positive_Quantity :: "'d csv_row list \<Rightarrow> 'd csv_row list" where
  "positive_Quantity df = boolean_index df (map (\<lambda>r. Quantity r > 0) df)"

fun parse_dates :: "(string \<Rightarrow> timestamp option) \<Rightarrow> string csv_row list
    \<Rightarrow> load_error + timestamp csv_row list" where
  "parse_dates to_datetime [] = Inr []"
| "parse_dates to_datetime (r # rs) =
     (case to_datetime (InvoiceDate r) of
        None \<Rightarrow> Inl ParseError
      | Some t \<Rightarrow>
          (case parse_dates to_datetime rs of
             Inl e \<Rightarrow> Inl e
           | Inr rs' \<Rightarrow>
               Inr (\<lparr>InvoiceNo = InvoiceNo r, Description = Description r,
                      Quantity = Quantity r, InvoiceDate = t, UnitPrice = UnitPrice r,
                      CustomerID = CustomerID r, Country = Country r\<rparr> # rs')))"

definition add_TotalPrice :: "timestamp csv_row \<Rightarrow> sales_row" where
  "add_TotalPrice r =
     \<lparr>InvoiceNo = InvoiceNo r, Description = Description r, Quantity = Quantity r,
      InvoiceDate = InvoiceDate r, UnitPrice = UnitPrice r, CustomerID = CustomerID r,
      Country = Country r, TotalPrice = real_of_int (Quantity r) * UnitPrice r\<rparr>"

definition load_data :: "(string \<Rightarrow> timestamp option)
    \<Rightarrow> load_error + string csv_row list \<Rightarrow> load_error + data_frame" where
  "load_data to_datetime read_csv =
     (case read_csv of
        Inl e \<Rightarrow> Inl e
      | Inr df0 \<Rightarrow>
          (case parse_dates to_datetime (positive_Quantity (dropna_CustomerID df0)) of
             Inl e \<Rightarrow> Inl e
           | Inr df1 \<Rightarrow> Inr (drop_duplicates (map add_TotalPrice df1))))"

subsection \<open>The filter\<close>

text \<open>
  Lines 89 to 92. The mask is built column-wise: the two date comparisons first, and
  the country comparison is and-ed into it only when the selection is not \<open>'All'\<close>.
\<close>

definition mask :: "data_frame \<Rightarrow> date \<Rightarrow> date \<Rightarrow> string \<Rightarrow> bool list" where
  "mask df start end selected_country =
     (let m = map2 (\<and>) (map (\<lambda>r. dt_date (InvoiceDate r) \<ge> start) df)
                       (map (\<lambda>r. dt_date (InvoiceDate r) \<le> end) df)
      in if selected_country \<noteq> ''All''
         then map2 (\<and>) m (map (\<lambda>r. Country r = selected_country) df)
         else m)"

definition filtered_df :: "data_frame \<Rightarrow> date \<Rightarrow> date \<Rightarrow> string \<Rightarrow> data_frame" where
  "filtered_df df start end selected_country =
     boolean_index df (mask df start end selected_country)"

text \<open>The filter in the words of the specification: the rows that satisfy the predicate.\<close>

definition in_selection :: "date \<Rightarrow> date \<Rightarrow> string \<Rightarrow> sales_row \<Rightarrow> bool" where
  "in_selection start end selected_country r =
     (start \<le> dt_date (InvoiceDate r) \<and> dt_date (InvoiceDate r) \<le> end \<and>
      (if selected_country = ''All'' then True else Country r = selected_country))"

subsection \<open>The key metrics\<close>

text \<open>
  Lines 99 to 102. The quotient is modelled with its failure: a division by zero is a
  value of its own, so that the guard of \<open>avg_order_value\<close> has something to guard.
\<close>

datatype arith_error = ZeroDivisionError

definition truediv :: "real \<Rightarrow> nat \<Rightarrow> arith_error + real" where
  "truediv a n = (if n = 0 then Inl ZeroDivisionError else Inr (a / real n))"

definition total_sales :: "data_frame \<Rightarrow> real" where
  "total_sales df = sum_list (map TotalPrice df)"

definition total_orders :: "data_frame \<Rightarrow> nat" where
  "total_orders df = nunique (map InvoiceNo df)"

definition total_customers :: "data_frame \<Rightarrow> nat" where
  "total_customers df = nunique_dropna (map CustomerID df)"

definition avg_order_value :: "data_frame \<Rightarrow> arith_error + real" where
  "avg_order_value df =
     (if total_orders df > 0 then truediv (total_sales df) (total_orders df) else Inr 0)"

subsection \<open>Grouping\<close>

text \<open>
  \<open>groupby\<close> walks the rows in index order and puts each one at the end of the group
  of its key, opening a new group at the first row of a key; the groups are delivered in
  ascending order of their keys (\<open>sort=True\<close>, the default). An aggregation is then
  applied to every group.
\<close>

fun add_to_group :: "'k \<Rightarrow> 'r \<Rightarrow> ('k \<times> 'r list) list \<Rightarrow> ('k \<times> 'r list) list" where
  "add_to_group k r [] = [(k, [r])]"
| "add_to_group k r ((k', rs) # g) =
     (if k' = k then (k', rs @ [r]) # g else (k', rs) # add_to_group k r g)"

definition groups_of :: "('r \<Rightarrow> 'k) \<Rightarrow> 'r list \<Rightarrow> ('k \<times> 'r list) list" where
  "groups_of key df = foldl (\<lambda>g r. add_to_group (key r) r g) [] df"

definition groupby :: "('r \<Rightarrow> 'k::linorder) \<Rightarrow> 'r list \<Rightarrow> ('k \<times> 'r list) list" where
  "groupby key df = sort_key fst (groups_of key df)"

definition agg_sum :: "('r \<Rightarrow> 'v::monoid_add) \<Rightarrow> ('k \<times> 'r list) list \<Rightarrow> ('k \<times> 'v) list" where
  "agg_sum col g = map (\<lambda>(k, rs). (k, sum_list (map col rs))) g"

definition agg_nunique :: "('r \<Rightarrow> 'v) \<Rightarrow> ('k \<times> 'r list) list \<Rightarrow> ('k \<times> nat) list" where
  "agg_nunique col g = map (\<lambda>(k, rs). (k, nunique (map col rs))) g"

text \<open>
  \<open>sort_values\<close> orders a series by its values. The library does not fix the order
  it gives to entries of equal value; the model takes the stable insertion sort of HOL,
  and for a descending sort the ascending sort of the reversed series, reversed. No
  statement of a claim below depends on the order of equal values, and the tables on
  which the rankings are evaluated have none. \<open>head\<close> and \<open>tail\<close> keep the first
  and the last \<open>n\<close> entries.
\<close>

definition sort_values :: "('k \<times> 'v::linorder) list \<Rightarrow> ('k \<times> 'v) list" where
  "sort_values s = sort_key snd s"

definition sort_values_descending :: "('k \<times> 'v::linorder) list \<Rightarrow> ('k \<times> 'v) list" where
  "sort_values_descending s = rev (sort_key snd (rev s))"

definition head :: "nat \<Rightarrow> 'a list \<Rightarrow> 'a list" where
  "head n s = take n s"

definition tail :: "nat \<Rightarrow> 'a list \<Rightarrow> 'a list" where
  "tail n s = drop (length s - n) s"

subsection \<open>The seven chart aggregations\<close>

text \<open>Line 127: the sales of every calendar month.\<close>

definition monthly_sales :: "data_frame \<Rightarrow> (period \<times> real) list" where
  "monthly_sales df = agg_sum TotalPrice (groupby (\<lambda>r. to_period_M (InvoiceDate r)) df)"

text \<open>
  Lines 141 to 147: the sales of every month and country, restricted to the ten countries
  of largest total sales (\<open>top_countries\<close>, the index of the series
  \<open>top_countries_series\<close>).
\<close>

definition top_countries_series :: "data_frame \<Rightarrow> (string \<times> real) list" where
  "top_countries_series df =
     head 10 (sort_values_descending (agg_sum TotalPrice (groupby Country df)))"

definition top_countries :: "data_frame \<Rightarrow> string list" where
  "top_countries df = map fst (top_countries_series df)"

definition monthly_country_sales :: "data_frame \<Rightarrow> ((period \<times> string) \<times> real) list" where
  "monthly_country_sales df =
     filter (\<lambda>((m, c), v). c \<in> set (top_countries df))
       (agg_sum TotalPrice (groupby (\<lambda>r. (to_period_M (InvoiceDate r), Country r)) df))"

text \<open>
  Lines 161 and 162: the sales of every hour of the day. The key is the column \<open>Hour\<close>
  that line 161 adds to the frame, given here as a list aligned with the rows.
\<close>

definition Hour_of :: "data_frame \<Rightarrow> nat list" where
  "Hour_of df = map (\<lambda>r. dt_hour (InvoiceDate r)) df"

definition hourly_sales :: "nat list \<Rightarrow> data_frame \<Rightarrow> (nat \<times> real) list" where
  "hourly_sales hours df = agg_sum (\<lambda>p. TotalPrice (snd p)) (groupby fst (zip hours df))"

text \<open>Lines 179 to 182 and 194 to 197: the two rankings.\<close>

definition top_products_data :: "data_frame \<Rightarrow> (string \<times> int) list" where
  "top_products_data df = tail 10 (sort_values (agg_sum Quantity (groupby Description df)))"

definition top_countries_data :: "data_frame \<Rightarrow> (string \<times> real) list" where
  "top_countries_data df = tail 10 (sort_values (agg_sum TotalPrice (groupby Country df)))"

text \<open>
  Line 215: the number of distinct invoices of every customer. \<open>groupby\<close> leaves out
  the rows whose key is missing (\<open>dropna=True\<close>, the default).
\<close>

definition customer_orders :: "data_frame \<Rightarrow> (int option \<times> nat) list" where
  "customer_orders df =
     agg_nunique InvoiceNo (groupby CustomerID (filter (\<lambda>r. CustomerID r \<noteq> None) df))"

text \<open>
  Line 227: the matrix of Pearson correlations of the three numeric columns. An entry
  is undefined (the library's \<open>NaN\<close>, here \<open>None\<close>) when there is no observation or
  when the divisor, the root of the product of the two sums of squared deviations, is
  zero. The matrix always has one row and one column for each of the three columns.
\<close>

definition mean :: "real list \<Rightarrow> real" where
  "mean xs = sum_list xs / real (length xs)"

definition ssqdm :: "real list \<Rightarrow> real" where
  "ssqdm xs = sum_list (map (\<lambda>x. (x - mean xs) * (x - mean xs)) xs)"

definition covxy :: "real list \<Rightarrow> real list \<Rightarrow> real" where
  "covxy xs ys = sum_list (map2 (\<lambda>x y. (x - mean xs) * (y - mean ys)) xs ys)"

definition pearson :: "real list \<Rightarrow> real list \<Rightarrow> real option" where
  "pearson xs ys =
     (if length xs < 1 then None
      else let divisor = sqrt (ssqdm xs * ssqdm ys)
           in if divisor \<noteq> 0 then Some (covxy xs ys / divisor) else None)"

definition numeric_columns :: "data_frame \<Rightarrow> real list list" where
  "numeric_columns df =
     [map (\<lambda>r. real_of_int (Quantity r)) df, map UnitPrice df, map TotalPrice df]"

definition corr :: "real list list \<Rightarrow> real option list list" where
  "corr cols = map (\<lambda>xs. map (\<lambda>ys. pearson xs ys) cols) cols"

definition corr_matrix :: "data_frame \<Rightarrow> real option list list" where
  "corr_matrix df = corr (numeric_columns df)"


subsection \<open>The export\<close>

text \<open>
  Lines 136 and 137. A series carries the name of its index and its own name. The
  series of line 127 is grouped by \<open>filtered_df['InvoiceDate'].dt.to_period('M')\<close>, a
  column that keeps the name \<open>InvoiceDate\<close>, and selects the column \<open>TotalPrice\<close>.
  \<open>to_frame(name='Sales')\<close> names the one column of the frame and leaves the index as
  it is; \<open>to_csv(index=True)\<close> writes a header line, the name of the index first, and
  one line for every entry. The texts of a month and of a number are parameters.
\<close>

record ('k, 'v) series =
  index_name :: string
  series_name :: string
  entries :: "('k \<times> 'v) list"

definition monthly_sales_series :: "data_frame \<Rightarrow> (period, real) series" where
  "monthly_sales_series df =
     \<lparr>index_name = ''InvoiceDate'', series_name = ''TotalPrice'', entries = monthly_sales df\<rparr>"

definition to_frame :: "string \<Rightarrow> ('k, 'v) series \<Rightarrow> ('k, 'v) series" where
  "to_frame name s = s\<lparr>series_name := name\<rparr>"

definition csv_header :: "('k, 'v) series \<Rightarrow> string list" where
  "csv_header s = [index_name s, series_name s]"

definition csv_line :: "string list \<Rightarrow> string" where
  "csv_line cells =
     (case cells of [] \<Rightarrow> [] | c # cs \<Rightarrow> c @ concat (map (\<lambda>d. '','' @ d) cs)) @ [CHR 0x0A]"

definition to_csv :: "('k \<Rightarrow> string) \<Rightarrow> ('v \<Rightarrow> string) \<Rightarrow> ('k, 'v) series \<Rightarrow> string" where
  "to_csv str_index str_value s =
     concat (map csv_line
       (csv_header s # map (\<lambda>(k, v). [str_index k, str_value v]) (entries s)))"

definition csv :: "(period \<Rightarrow> string) \<Rightarrow> (real \<Rightarrow> string) \<Rightarrow> data_frame \<Rightarrow> string" where
  "csv str_index str_value df =
     to_csv str_index str_value (to_frame ''Sales'' (monthly_sales_series df))"

subsection \<open>The script as a program on a store of frames\<close>

text \<open>
  The script holds two frames, \<open>df\<close> and \<open>filtered_df\<close>, and assigns a column to one
  of them (line 161). A frame object is the rows of the loaded columns and the column
  \<open>Hour\<close>, absent until it is assigned. The store is the list of the frame objects
  that exist, an address is a position in it, and a new object is put at its end.
\<close>

record frame =
  rows :: data_frame
  Hour :: "nat list option"

type_synonym store = "frame list"

text \<open>\<open>df[mask].copy()\<close>: a new object with the selected rows of every column.\<close>

definition index_copy :: "frame \<Rightarrow> bool list \<Rightarrow> frame" where
  "index_copy f m =
     \<lparr>rows = boolean_index (rows f) m,
      Hour = map_option (\<lambda>h. boolean_index h m) (Hour f)\<rparr>"

definition alloc :: "store \<Rightarrow> frame \<Rightarrow> nat \<times> store" where
  "alloc st f = (length st, st @ [f])"

text \<open>\<open>frame['Hour'] = frame['InvoiceDate'].dt.hour\<close>: the object at the address changes.\<close>

definition assign_Hour :: "store \<Rightarrow> nat \<Rightarrow> store" where
  "assign_Hour st a = st[a := (st ! a)\<lparr>Hour := Some (Hour_of (rows (st ! a)))\<rparr>]"

datatype key_error = KeyError

text \<open>\<open>groupby('Hour')\<close> fails on a frame that has no such column.\<close>

definition hourly_sales_of :: "frame \<Rightarrow> key_error + (nat \<times> real) list" where
  "hourly_sales_of f =
     (case Hour f of None \<Rightarrow> Inl KeyError | Some hours \<Rightarrow> Inr (hourly_sales hours (rows f)))"

text \<open>
  The chart calls. \<open>px.line\<close> (line 128) and \<open>px.bar\<close> (lines 163, 183 and 198) get
  \<open>x\<close> and \<open>y\<close> as two sequences and no data frame. The library takes a sequence
  without elements for a list of columns and refuses two such lists with a
  \<open>ValueError\<close>; with elements, texts and numbers are the values of one column each.
  The other three chart calls (lines 148, 217 and 228) get a frame, a series or a matrix;
  the script reaches them only after line 128 has drawn, and no failure of theirs is
  modelled.
\<close>

datatype chart_error = ValueError

definition px_xy :: "'a list \<Rightarrow> 'b list \<Rightarrow> chart_error + unit" where
  "px_xy x y = (if x = [] \<and> y = [] then Inl ValueError else Inr ())"

text \<open>An exception of any of the three kinds ends the script.\<close>

datatype script_error =
  Arithmetic arith_error
| Missing key_error
| Chart chart_error

record outputs =
  out_total_sales :: real
  out_total_orders :: nat
  out_total_customers :: nat
  out_avg_order_value :: real
  out_monthly_sales :: "(period \<times> real) list"
  out_monthly_country_sales :: "((period \<times> string) \<times> real) list"
  out_hourly_sales :: "(nat \<times> real) list"
  out_top_products_data :: "(string \<times> int) list"
  out_top_countries_data :: "(string \<times> real) list"
  out_customer_orders :: "(int option \<times> nat) list"
  out_corr_matrix :: "real option list list"

text \<open>
  Lines 89 to 235, with \<open>df\<close> the address of the loaded table. Every metric and every
  aggregation reads the object at \<open>fdf\<close>, the address of the filtered copy. The
  statements run in the order of the source; the script returns the store as it is when
  it ends, and either the exception that ended it or what it has computed.
\<close>

definition dashboard :: "store \<Rightarrow> nat \<Rightarrow> date \<Rightarrow> date \<Rightarrow> string
    \<Rightarrow> store \<times> (script_error + outputs)" where
  "dashboard st df start end selected_country =
     (let m = mask (rows (st ! df)) start end selected_country;
          (fdf, st1) = alloc st (index_copy (st ! df) m);
          sales = total_sales (rows (st1 ! fdf));
          orders = total_orders (rows (st1 ! fdf));
          customers = total_customers (rows (st1 ! fdf))
      in case avg_order_value (rows (st1 ! fdf)) of
           Inl e \<Rightarrow> (st1, Inl (Arithmetic e))
         | Inr avg \<Rightarrow>
      let monthly = monthly_sales (rows (st1 ! fdf))
      in case px_xy (map fst monthly) (map snd monthly) of
           Inl e \<Rightarrow> (st1, Inl (Chart e))
         | Inr fig_sales \<Rightarrow>
      let monthly_country = monthly_country_sales (rows (st1 ! fdf));
          st2 = assign_Hour st1 fdf
      in case hourly_sales_of (st2 ! fdf) of
           Inl e \<Rightarrow> (st2, Inl (Missing e))
         | Inr hourly \<Rightarrow>
      case px_xy (map fst hourly) (map snd hourly) of
           Inl e \<Rightarrow> (st2, Inl (Chart e))
         | Inr fig_hourly \<Rightarrow>
      let products = top_products_data (rows (st2 ! fdf))
      in case px_xy (map snd products) (map fst products) of
           Inl e \<Rightarrow> (st2, Inl (Chart e))
         | Inr fig_products \<Rightarrow>
      let countries = top_countries_data (rows (st2 ! fdf))
      in case px_xy (map snd countries) (map fst countries) of
           Inl e \<Rightarrow> (st2, Inl (Chart e))
         | Inr fig_countries \<Rightarrow>
      let per_customer = customer_orders (rows (st2 ! fdf));
          correlations = corr_matrix (rows (st2 ! fdf))
      in (st2,
          Inr \<lparr>out_total_sales = sales, out_total_orders = orders,
               out_total_customers = customers, out_avg_order_value = avg,
               out_monthly_sales = monthly, out_monthly_country_sales = monthly_country,
               out_hourly_sales = hourly, out_top_products_data = products,
               out_top_countries_data = countries, out_customer_orders = per_customer,
               out_corr_matrix = correlations\<rparr>))"

subsection \<open>A small table\<close>

text \<open>
  Five lines of a file as \<open>read_csv\<close> delivers them (one repeated, one without a
  customer and with a text that is no date, one return with a negative quantity), a
  parser that knows the two date texts, and the two rows the loader makes of them.
\<close>

definition example_to_datetime :: "string \<Rightarrow> timestamp option" where
  "example_to_datetime =
     map_of [(''2021-01-05 10:30'',
              \<lparr>year = 2021, month = 1, day = 5, hour = 10, minute = 30, second = 0\<rparr>),
             (''2021-02-10 14:00'',
              \<lparr>year = 2021, month = 2, day = 10, hour = 14, minute = 0, second = 0\<rparr>)]"

definition example_csv :: "string csv_row list" where
  "example_csv =
     [\<lparr>InvoiceNo = ''1'', Description = ''LANTERN'', Quantity = 2,
       InvoiceDate = ''2021-01-05 10:30'', UnitPrice = 5, CustomerID = Some 17850,
       Country = ''FR''\<rparr>,
      \<lparr>InvoiceNo = ''1'', Description = ''LANTERN'', Quantity = 2,
       InvoiceDate = ''2021-01-05 10:30'', UnitPrice = 5, CustomerID = Some 17850,
       Country = ''FR''\<rparr>,
      \<lparr>InvoiceNo = ''3'', Description = ''MUG'', Quantity = 1,
       InvoiceDate = ''not a date'', UnitPrice = 4, CustomerID = None,
       Country = ''DE''\<rparr>,
      \<lparr>InvoiceNo = ''C4'', Description = ''MUG'', Quantity = - 1,
       InvoiceDate = ''2021-02-10 14:00'', UnitPrice = 4, CustomerID = Some 13047,
       Country = ''DE''\<rparr>,
      \<lparr>InvoiceNo = ''2'', Description = ''MUG'', Quantity = 5,
       InvoiceDate = ''2021-02-10 14:00'', UnitPrice = 4, CustomerID = Some 13047,
       Country = ''FR''\<rparr>]"

definition example_df :: data_frame where
  "example_df =
     [\<lparr>InvoiceNo = ''1'', Description = ''LANTERN'', Quantity = 2,
       InvoiceDate = \<lparr>year = 2021, month = 1, day = 5, hour = 10, minute = 30, second = 0\<rparr>,
       UnitPrice = 5, CustomerID = Some 17850, Country = ''FR'', TotalPrice = 10\<rparr>,
      \<lparr>InvoiceNo = ''2'', Description = ''MUG'', Quantity = 5,
       InvoiceDate = \<lparr>year = 2021, month = 2, day = 10, hour = 14, minute = 0, second = 0\<rparr>,
       UnitPrice = 4, CustomerID = Some 13047, Country = ''FR'', TotalPrice = 20\<rparr>]"

text \<open>
  Thirteen rows of one month for twelve countries, one row each but for \<open>DE\<close>, so
  that a ranking of ten has to leave two countries out. No two countries have the same
  sales or the same quantity.
\<close>

definition one_row :: "string \<Rightarrow> int \<Rightarrow> sales_row" where
  "one_row c q =
     \<lparr>InvoiceNo = c, Description = c, Quantity = q,
      InvoiceDate = \<lparr>year = 2021, month = 3, day = 1, hour = 9, minute = 0, second = 0\<rparr>,
      UnitPrice = 1, CustomerID = Some 1, Country = c, TotalPrice = real_of_int q\<rparr>"

definition twelve_countries :: data_frame where
  "twelve_countries =
     [one_row ''AT'' 7, one_row ''BE'' 3, one_row ''CH'' 12, one_row ''DE'' 1,
      one_row ''ES'' 9, one_row ''FR'' 5, one_row ''GR'' 11, one_row ''HU'' 2,
      one_row ''IT'' 8, one_row ''JP'' 4, one_row ''KR'' 10, one_row ''LU'' 6,
      one_row ''DE'' 13]"

section \<open>The loader\<close>

lemma set_foldl_keep_first: "set (foldl keep_first acc xs) = set acc \<union> set xs"
  by (induction xs arbitrary: acc) (auto simp: keep_first_def)

lemma distinct_foldl_keep_first: "distinct acc \<Longrightarrow> distinct (foldl keep_first acc xs)"
  by (induction xs arbitrary: acc) (auto simp: keep_first_def)

lemma set_drop_duplicates: "set (drop_duplicates xs) = set xs"
  by (simp add: drop_duplicates_def set_foldl_keep_first)

lemma distinct_drop_duplicates: "distinct (drop_duplicates xs)"
  by (simp add: drop_duplicates_def distinct_foldl_keep_first)

lemma boolean_index_map: "boolean_index df (map P df) = filter P df"
  by (induction df) (auto simp: boolean_index_def)

lemma parse_dates_keeps:
  "parse_dates p rs = Inr rs' \<Longrightarrow> r' \<in> set rs' \<Longrightarrow>
     \<exists>r \<in> set rs. CustomerID r' = CustomerID r \<and> Quantity r' = Quantity r"
proof (induction rs arbitrary: rs')
  case Nil
  then show ?case by simp
next
  case (Cons a rs)
  then show ?case
    by (auto split: option.splits sum.splits)
qed

text \<open>
  C1. Every row of the table that \<open>load_data\<close> returns has a customer, a positive
  quantity and a total that is the product of quantity and unit price, and no row
  occurs twice in the table.
\<close>

theorem load_data_invariants:
  assumes "load_data to_datetime read_csv = Inr df"
  shows "list_all (\<lambda>r. CustomerID r \<noteq> None \<and> Quantity r > 0 \<and>
                       TotalPrice r = real_of_int (Quantity r) * UnitPrice r) df \<and>
         distinct df"
proof -
  from assms obtain df0 df1 where
    rd: "read_csv = Inr df0" and
    pd: "parse_dates to_datetime (positive_Quantity (dropna_CustomerID df0)) = Inr df1" and
    df: "df = drop_duplicates (map add_TotalPrice df1)"
    by (auto simp: load_data_def split: sum.splits)
  have clean: "CustomerID r \<noteq> None \<and> Quantity r > 0"
    if "r \<in> set (positive_Quantity (dropna_CustomerID df0))" for r
    using that by (simp add: positive_Quantity_def dropna_CustomerID_def boolean_index_map)
  have parsed: "CustomerID r' \<noteq> None \<and> Quantity r' > 0" if "r' \<in> set df1" for r'
    using parse_dates_keeps [OF pd that] clean by metis
  have "CustomerID r \<noteq> None \<and> Quantity r > 0 \<and>
        TotalPrice r = real_of_int (Quantity r) * UnitPrice r" if "r \<in> set df" for r
  proof -
    from that obtain r' where "r' \<in> set df1" and "r = add_TotalPrice r'"
      by (auto simp: df set_drop_duplicates)
    then show ?thesis using parsed [of r'] by (simp add: add_TotalPrice_def)
  qed
  then show ?thesis
    by (simp add: list_all_iff df distinct_drop_duplicates)
qed

lemma load_example: "load_data example_to_datetime (Inr example_csv) = Inr example_df"
  by (simp add: load_data_def example_csv_def example_df_def example_to_datetime_def
      dropna_CustomerID_def positive_Quantity_def boolean_index_def add_TotalPrice_def
      drop_duplicates_def keep_first_def)

theorem load_data_invariants_witness:
  "load_data example_to_datetime (Inr example_csv) = Inr example_df \<and>
   list_all (\<lambda>r. CustomerID r \<noteq> None \<and> Quantity r > 0 \<and>
                  TotalPrice r = real_of_int (Quantity r) * UnitPrice r) example_df \<and>
   distinct example_df \<and> length example_df = 2"
  using load_data_invariants [OF load_example] load_example
  by (simp add: example_df_def)

section \<open>The filter\<close>

lemma mask_eq: "mask df s e c = map (in_selection s e c) df"
  by (induction df) (auto simp: mask_def in_selection_def Let_def)

lemma filtered_df_filter: "filtered_df df s e c = filter (in_selection s e c) df"
  by (simp add: filtered_df_def mask_eq boolean_index_map)

text \<open>
  C2. The filter returns the rows, in the order of the table, whose date lies in the
  interval from \<open>start\<close> to \<open>end\<close> and whose country is the selected one; the
  selection \<open>'All'\<close> puts no condition on the country.
\<close>

theorem filtered_df_is_filter:
  "filtered_df df start end selected_country =
     filter (\<lambda>r. start \<le> dt_date (InvoiceDate r) \<and> dt_date (InvoiceDate r) \<le> end \<and>
                  (selected_country \<noteq> ''All'' \<longrightarrow> Country r = selected_country)) df"
proof -
  have "in_selection start end selected_country =
        (\<lambda>r. start \<le> dt_date (InvoiceDate r) \<and> dt_date (InvoiceDate r) \<le> end \<and>
              (selected_country \<noteq> ''All'' \<longrightarrow> Country r = selected_country))"
    by (auto simp: in_selection_def fun_eq_iff)
  then show ?thesis by (simp add: filtered_df_filter)
qed

theorem filtered_df_is_filter_witness:
  "filtered_df example_df (2021, 1, 1) (2021, 1, 31) ''All'' = [hd example_df] \<and>
   filtered_df example_df (2021, 1, 1) (2021, 12, 31) ''FR'' = example_df \<and>
   filtered_df example_df (2021, 1, 1) (2021, 12, 31) ''DE'' = []"
  using filtered_df_is_filter [of example_df "(2021, 1, 1)" "(2021, 1, 31)" "''All''"]
    filtered_df_is_filter [of example_df "(2021, 1, 1)" "(2021, 12, 31)" "''FR''"]
    filtered_df_is_filter [of example_df "(2021, 1, 1)" "(2021, 12, 31)" "''DE''"]
  by (simp add: example_df_def dt_date_def)

text \<open>
  C5. Filtering the outcome of the filter again, with the same interval and the same
  selection, gives the same rows.
\<close>

theorem filtered_df_idempotent:
  "filtered_df (filtered_df df start end selected_country) start end selected_country =
     filtered_df df start end selected_country"
  by (simp add: filtered_df_filter)

section \<open>The key metrics\<close>

lemma nunique_card: "nunique xs = card (set xs)"
  by (simp add: nunique_def length_remdups_card_conv)

text \<open>
  C3. \<open>avg_order_value\<close> never divides by zero: it is \<open>0\<close> when there is no order,
  and the quotient of the total sales (the sum of \<open>TotalPrice\<close>) by the number of
  orders (the number of distinct \<open>InvoiceNo\<close>) otherwise.
\<close>

theorem avg_order_value_guarded:
  "avg_order_value df =
     Inr (if total_orders df = 0 then 0 else total_sales df / real (total_orders df)) \<and>
   total_orders df = card (InvoiceNo ` set df) \<and>
   total_sales df = sum_list (map TotalPrice df)"
  by (simp add: avg_order_value_def truediv_def total_orders_def nunique_card total_sales_def)

section \<open>Grouping\<close>

lemma map_of_add_to_group:
  "map_of (add_to_group k r g) =
     (map_of g)(k \<mapsto> (case map_of g k of None \<Rightarrow> [r] | Some rs \<Rightarrow> rs @ [r]))"
  by (induction g) (auto simp: fun_eq_iff)

lemma keys_add_to_group:
  "map fst (add_to_group k r g) = (if k \<in> fst ` set g then map fst g else map fst g @ [k])"
  by (induction g) force+

lemma groups_of_snoc:
  "groups_of key (xs @ [x]) = add_to_group (key x) x (groups_of key xs)"
  by (simp add: groups_of_def)

lemma keys_groups_of:
  "distinct (map fst (groups_of key xs)) \<and> fst ` set (groups_of key xs) = key ` set xs"
proof (induction xs rule: rev_induct)
  case Nil
  show ?case by (simp add: groups_of_def)
next
  case (snoc x xs)
  have "set (map fst (add_to_group (key x) x (groups_of key xs))) = key ` set (xs @ [x])"
    using snoc by (auto simp: keys_add_to_group)
  moreover have "distinct (map fst (add_to_group (key x) x (groups_of key xs)))"
    using snoc by (simp add: keys_add_to_group)
  ultimately show ?case by (simp add: groups_of_snoc)
qed

lemma map_of_groups_of:
  "map_of (groups_of key xs) k =
     (if k \<in> key ` set xs then Some (filter (\<lambda>r. key r = k) xs) else None)"
proof (induction xs arbitrary: k rule: rev_induct)
  case Nil
  show ?case by (simp add: groups_of_def)
next
  case (snoc x xs)
  show ?case
    by (auto simp: groups_of_snoc map_of_add_to_group snoc filter_empty_conv image_iff)
qed

lemma groups_of_member:
  assumes "(k, rs) \<in> set (groups_of key xs)"
  shows "rs = filter (\<lambda>r. key r = k) xs"
proof -
  have "map_of (groups_of key xs) k = Some rs"
    using assms keys_groups_of [of key xs] by simp
  then show ?thesis
    by (simp add: map_of_groups_of split: if_splits)
qed

lemma map_by_key:
  "(\<And>k v. (k, v) \<in> set g \<Longrightarrow> v = f k) \<Longrightarrow> g = map (\<lambda>k. (k, f k)) (map fst g)"
  by (induction g) auto

lemma groupby_eq:
  "groupby key df =
     map (\<lambda>k. (k, filter (\<lambda>r. key r = k) df)) (sorted_list_of_set (key ` set df))"
proof -
  let ?G = "groupby key df"
  have "sorted (map fst ?G)" by (simp add: groupby_def)
  moreover have "distinct (map fst ?G)"
    using keys_groups_of [of key df] by (simp add: groupby_def distinct_map)
  moreover have "set (map fst ?G) = key ` set df"
    using keys_groups_of [of key df] by (simp add: groupby_def)
  ultimately have keys: "map fst ?G = sorted_list_of_set (key ` set df)"
    by (intro sorted_distinct_set_unique) simp_all
  have "?G = map (\<lambda>k. (k, filter (\<lambda>r. key r = k) df)) (map fst ?G)"
    by (rule map_by_key) (simp add: groupby_def groups_of_member)
  then show ?thesis by (simp only: keys)
qed

lemma agg_sum_groupby:
  "agg_sum col (groupby key df) =
     map (\<lambda>k. (k, sum_list (map col (filter (\<lambda>r. key r = k) df))))
       (sorted_list_of_set (key ` set df))"
  by (simp add: agg_sum_def groupby_eq comp_def)

lemma keys_agg_sum_groupby: "fst ` set (agg_sum col (groupby key df)) = key ` set df"
  by (simp add: agg_sum_groupby image_comp comp_def)

lemma keys_groupby: "map fst (groupby key df) = sorted_list_of_set (key ` set df)"
  by (simp add: groupby_eq comp_def)

text \<open>
  C7. The monthly trend has one entry for every calendar month that occurs in the
  table, in ascending order of the months, and the value of a month is the sum of
  \<open>TotalPrice\<close> over the rows of that month. For two rows with invoices 1 and 2, totals
  10 and 20, country FR and dates 2021-01-05 and 2021-02-10 (whatever their other
  fields) it is 10 for 2021-01 and 20 for 2021-02, the total sales are 30, the orders 2
  and the average order value 15.
\<close>

theorem monthly_trend:
  "monthly_sales df =
     map (\<lambda>m. (m, sum_list (map TotalPrice (filter (\<lambda>r. to_period_M (InvoiceDate r) = m) df))))
       (sorted_list_of_set ((\<lambda>r. to_period_M (InvoiceDate r)) ` set df)) \<and>
   sorted (map fst (monthly_sales df)) \<and>
   distinct (map fst (monthly_sales df)) \<and>
   (let example =
      [r1\<lparr>InvoiceNo := ''1'', TotalPrice := 10, Country := ''FR'',
          InvoiceDate := t1\<lparr>year := 2021, month := 1, day := 5\<rparr>\<rparr>,
       r2\<lparr>InvoiceNo := ''2'', TotalPrice := 20, Country := ''FR'',
          InvoiceDate := t2\<lparr>year := 2021, month := 2, day := 10\<rparr>\<rparr>]
    in monthly_sales example = [((2021, 1), 10), ((2021, 2), 20)] \<and>
       total_sales example = 30 \<and>
       total_orders example = 2 \<and>
       avg_order_value example = Inr 15)"
proof -
  have eq: "monthly_sales df =
     map (\<lambda>m. (m, sum_list (map TotalPrice (filter (\<lambda>r. to_period_M (InvoiceDate r) = m) df))))
       (sorted_list_of_set ((\<lambda>r. to_period_M (InvoiceDate r)) ` set df))"
    by (simp only: monthly_sales_def agg_sum_groupby)
  have keys: "map fst (monthly_sales df) =
       sorted_list_of_set ((\<lambda>r. to_period_M (InvoiceDate r)) ` set df)"
    by (simp add: eq comp_def)
  have srt: "sorted (map fst (monthly_sales df))"
    by (simp only: keys sorted_sorted_list_of_set)
  have dst: "distinct (map fst (monthly_sales df))"
    by (simp only: keys distinct_sorted_list_of_set)
  have ex: "(let example =
      [r1\<lparr>InvoiceNo := ''1'', TotalPrice := 10, Country := ''FR'',
          InvoiceDate := t1\<lparr>year := 2021, month := 1, day := 5\<rparr>\<rparr>,
       r2\<lparr>InvoiceNo := ''2'', TotalPrice := 20, Country := ''FR'',
          InvoiceDate := t2\<lparr>year := 2021, month := 2, day := 10\<rparr>\<rparr>]
    in monthly_sales example = [((2021, 1), 10), ((2021, 2), 20)] \<and>
       total_sales example = 30 \<and>
       total_orders example = 2 \<and>
       avg_order_value example = Inr 15)"
    by (simp add: Let_def monthly_sales_def agg_sum_def groupby_def groups_of_def
        to_period_M_def total_sales_def total_orders_def nunique_def avg_order_value_def
        truediv_def)
  show ?thesis by (intro conjI eq srt dst ex)
qed

section \<open>The rankings\<close>

lemma length_tail: "length (tail n s) \<le> n"
  by (simp add: tail_def)

lemma length_head: "length (head n s) \<le> n"
  by (simp add: head_def)

lemma set_tail: "set (tail n s) \<subseteq> set s"
  by (simp add: tail_def set_drop_subset)

lemma set_head: "set (head n s) \<subseteq> set s"
  by (simp add: head_def set_take_subset)

lemma sorted_tail_sort_values: "sorted (map snd (tail n (sort_values s)))"
  by (simp add: tail_def sort_values_def drop_map [symmetric])

lemma rev_head_sort_values_descending:
  "rev (head n (sort_values_descending s)) = tail n (sort_values (rev s))"
  by (simp add: head_def tail_def sort_values_def sort_values_descending_def rev_take)

lemma sorted_head_sort_values_descending:
  "sorted (rev (map snd (head n (sort_values_descending s))))"
  by (simp only: rev_map rev_head_sort_values_descending sorted_tail_sort_values)

lemma set_sort_values: "set (sort_values s) = set s"
  by (simp add: sort_values_def)

lemma set_sort_values_descending: "set (sort_values_descending s) = set s"
  by (simp add: sort_values_descending_def)

lemma agg_sum_member:
  assumes "(k, v) \<in> set (agg_sum col (groupby key df))"
  shows "v = sum_list (map col (filter (\<lambda>r. key r = k) df))"
  using assms by (auto simp: agg_sum_groupby)

lemma values_by_key:
  "(\<And>k v. (k, v) \<in> set g \<Longrightarrow> v = f k) \<Longrightarrow> map snd g = map f (map fst g)"
  by (induction g) auto

lemma keys_tail_sorted_agg:
  "fst ` set (tail n (sort_values (agg_sum col (groupby key df)))) \<subseteq> key ` set df"
proof -
  have "set (tail n (sort_values (agg_sum col (groupby key df))))
          \<subseteq> set (agg_sum col (groupby key df))"
    using set_tail [of n "sort_values (agg_sum col (groupby key df))"]
    by (simp add: set_sort_values)
  then have "fst ` set (tail n (sort_values (agg_sum col (groupby key df))))
          \<subseteq> fst ` set (agg_sum col (groupby key df))"
    by (rule image_mono)
  then show ?thesis by (simp only: keys_agg_sum_groupby)
qed

lemma values_tail_sorted_agg:
  "map snd (tail n (sort_values (agg_sum col (groupby key df)))) =
     map (\<lambda>k. sum_list (map col (filter (\<lambda>r. key r = k) df)))
       (map fst (tail n (sort_values (agg_sum col (groupby key df)))))"
proof (rule values_by_key)
  fix k v
  assume "(k, v) \<in> set (tail n (sort_values (agg_sum col (groupby key df))))"
  then have "(k, v) \<in> set (agg_sum col (groupby key df))"
    using set_tail [of n "sort_values (agg_sum col (groupby key df))"]
    by (auto simp: set_sort_values)
  then show "v = sum_list (map col (filter (\<lambda>r. key r = k) df))"
    by (rule agg_sum_member)
qed

lemma top_countries_series_subset:
  "set (top_countries_series df) \<subseteq> set (agg_sum TotalPrice (groupby Country df))"
  using set_head [of 10 "sort_values_descending (agg_sum TotalPrice (groupby Country df))"]
  by (simp add: top_countries_series_def set_sort_values_descending)

lemma top_countries_subset: "set (top_countries df) \<subseteq> Country ` set df"
proof -
  have "fst ` set (top_countries_series df) \<subseteq> fst ` set (agg_sum TotalPrice (groupby Country df))"
    by (rule image_mono) (rule top_countries_series_subset)
  then show ?thesis by (simp only: top_countries_def set_map keys_agg_sum_groupby)
qed

lemma values_top_countries_series:
  "map snd (top_countries_series df) =
     map (\<lambda>c. sum_list (map TotalPrice (filter (\<lambda>r. Country r = c) df))) (top_countries df)"
  unfolding top_countries_def
proof (rule values_by_key)
  fix k v
  assume "(k, v) \<in> set (top_countries_series df)"
  then have "(k, v) \<in> set (agg_sum TotalPrice (groupby Country df))"
    using top_countries_series_subset by blast
  then show "v = sum_list (map TotalPrice (filter (\<lambda>r. Country r = k) df))"
    by (rule agg_sum_member)
qed

lemma monthly_country_sales_countries:
  "(\<lambda>p. snd (fst p)) ` set (monthly_country_sales df) \<subseteq> set (top_countries df)"
  by (auto simp: monthly_country_sales_def)

lemma monthly_country_sales_keys:
  "fst ` set (monthly_country_sales df)
     \<subseteq> (\<lambda>r. (to_period_M (InvoiceDate r), Country r)) ` set df"
proof -
  have "set (monthly_country_sales df) \<subseteq>
        set (agg_sum TotalPrice (groupby (\<lambda>r. (to_period_M (InvoiceDate r), Country r)) df))"
    by (simp add: monthly_country_sales_def)
  then have "fst ` set (monthly_country_sales df) \<subseteq>
        fst ` set (agg_sum TotalPrice (groupby (\<lambda>r. (to_period_M (InvoiceDate r), Country r)) df))"
    by (rule image_mono)
  then show ?thesis by (simp only: keys_agg_sum_groupby)
qed

lemma card_trend_countries:
  "card ((\<lambda>p. snd (fst p)) ` set (monthly_country_sales df)) \<le> 10"
proof -
  have "card ((\<lambda>p. snd (fst p)) ` set (monthly_country_sales df)) \<le> card (set (top_countries df))"
    by (intro card_mono monthly_country_sales_countries) simp
  also have "\<dots> \<le> length (top_countries df)" by (rule card_length)
  also have "\<dots> \<le> 10"
    by (simp add: top_countries_def top_countries_series_def length_head)
  finally show ?thesis .
qed

text \<open>
  C4. Each of the three selections of ten (the products of largest summed quantity, the
  countries of largest summed total, and the countries to which the monthly trend by
  country is restricted) has at most ten groups, is sorted by the aggregate (ascending
  for the two rankings, descending for the countries of the trend), pairs every key with
  the sum over the rows of that key, and has only keys that occur in the table; the
  restricted trend has only countries of the selection and only months and countries
  that occur together in a row.
\<close>

theorem top_10_selections:
  "length (top_products_data df) \<le> 10 \<and>
   sorted (map snd (top_products_data df)) \<and>
   fst ` set (top_products_data df) \<subseteq> Description ` set df \<and>
   map snd (top_products_data df) =
     map (\<lambda>d. sum_list (map Quantity (filter (\<lambda>r. Description r = d) df)))
       (map fst (top_products_data df)) \<and>
   length (top_countries_data df) \<le> 10 \<and>
   sorted (map snd (top_countries_data df)) \<and>
   fst ` set (top_countries_data df) \<subseteq> Country ` set df \<and>
   map snd (top_countries_data df) =
     map (\<lambda>c. sum_list (map TotalPrice (filter (\<lambda>r. Country r = c) df)))
       (map fst (top_countries_data df)) \<and>
   length (top_countries df) \<le> 10 \<and>
   sorted (rev (map snd (top_countries_series df))) \<and>
   set (top_countries df) \<subseteq> Country ` set df \<and>
   map snd (top_countries_series df) =
     map (\<lambda>c. sum_list (map TotalPrice (filter (\<lambda>r. Country r = c) df))) (top_countries df) \<and>
   (\<lambda>p. snd (fst p)) ` set (monthly_country_sales df) \<subseteq> set (top_countries df) \<and>
   card ((\<lambda>p. snd (fst p)) ` set (monthly_country_sales df)) \<le> 10 \<and>
   fst ` set (monthly_country_sales df)
     \<subseteq> (\<lambda>r. (to_period_M (InvoiceDate r), Country r)) ` set df"
proof -
  have p1: "length (top_products_data df) \<le> 10"
    by (simp add: top_products_data_def length_tail)
  have p2: "sorted (map snd (top_products_data df))"
    by (simp only: top_products_data_def sorted_tail_sort_values)
  have p3: "fst ` set (top_products_data df) \<subseteq> Description ` set df"
    by (simp only: top_products_data_def keys_tail_sorted_agg)
  have p4: "map snd (top_products_data df) =
     map (\<lambda>d. sum_list (map Quantity (filter (\<lambda>r. Description r = d) df)))
       (map fst (top_products_data df))"
    unfolding top_products_data_def by (rule values_tail_sorted_agg)
  have c1: "length (top_countries_data df) \<le> 10"
    by (simp add: top_countries_data_def length_tail)
  have c2: "sorted (map snd (top_countries_data df))"
    by (simp only: top_countries_data_def sorted_tail_sort_values)
  have c3: "fst ` set (top_countries_data df) \<subseteq> Country ` set df"
    by (simp only: top_countries_data_def keys_tail_sorted_agg)
  have c4: "map snd (top_countries_data df) =
     map (\<lambda>c. sum_list (map TotalPrice (filter (\<lambda>r. Country r = c) df)))
       (map fst (top_countries_data df))"
    unfolding top_countries_data_def by (rule values_tail_sorted_agg)
  have t1: "length (top_countries df) \<le> 10"
    by (simp add: top_countries_def top_countries_series_def length_head)
  have t2: "sorted (rev (map snd (top_countries_series df)))"
    by (simp only: top_countries_series_def sorted_head_sort_values_descending)
  show ?thesis
    by (intro conjI p1 p2 p3 p4 c1 c2 c3 c4 t1 t2 top_countries_subset
        values_top_countries_series monthly_country_sales_countries
        card_trend_countries monthly_country_sales_keys)
qed

text \<open>
  The rankings of the table of twelve countries: the two countries of smallest sales are
  left out, and \<open>DE\<close> counts with both its rows.
\<close>

lemma agg_twelve:
  "agg_sum TotalPrice (groupby Country twelve_countries) =
     [(''AT'', 7), (''BE'', 3), (''CH'', 12), (''DE'', 14), (''ES'', 9), (''FR'', 5),
      (''GR'', 11), (''HU'', 2), (''IT'', 8), (''JP'', 4), (''KR'', 10), (''LU'', 6)]"
  by (simp add: twelve_countries_def one_row_def agg_sum_def groupby_def groups_of_def)

lemma top_countries_data_twelve:
  "top_countries_data twelve_countries =
   [(''JP'', 4), (''FR'', 5), (''LU'', 6), (''AT'', 7), (''IT'', 8), (''ES'', 9),
    (''KR'', 10), (''GR'', 11), (''CH'', 12), (''DE'', 14)]"
  by (simp add: top_countries_data_def agg_twelve sort_values_def tail_def)

lemma top_countries_twelve:
  "top_countries twelve_countries =
   [''DE'', ''CH'', ''GR'', ''KR'', ''ES'', ''IT'', ''AT'', ''LU'', ''FR'', ''JP'']"
  by (simp add: top_countries_def top_countries_series_def agg_twelve
      sort_values_descending_def head_def)

lemma top_products_data_twelve:
  "top_products_data twelve_countries =
   [(''JP'', 4), (''FR'', 5), (''LU'', 6), (''AT'', 7), (''IT'', 8), (''ES'', 9),
    (''KR'', 10), (''GR'', 11), (''CH'', 12), (''DE'', 14)]"
  by (simp add: top_products_data_def twelve_countries_def one_row_def agg_sum_def
      groupby_def groups_of_def sort_values_def tail_def)

lemma monthly_country_sales_twelve:
  "monthly_country_sales twelve_countries =
   [(((2021, 3), ''AT''), 7), (((2021, 3), ''CH''), 12), (((2021, 3), ''DE''), 14),
    (((2021, 3), ''ES''), 9), (((2021, 3), ''FR''), 5), (((2021, 3), ''GR''), 11),
    (((2021, 3), ''IT''), 8), (((2021, 3), ''JP''), 4), (((2021, 3), ''KR''), 10),
    (((2021, 3), ''LU''), 6)]"
  unfolding monthly_country_sales_def top_countries_twelve
  by (simp add: twelve_countries_def one_row_def agg_sum_def groupby_def groups_of_def
      to_period_M_def)

theorem top_10_selections_witness:
  "length (top_countries_data twelve_countries) \<le> 10 \<and>
   sorted (map snd (top_countries_data twelve_countries)) \<and>
   sorted (rev (map snd (top_countries_series twelve_countries))) \<and>
   card ((\<lambda>p. snd (fst p)) ` set (monthly_country_sales twelve_countries)) \<le> 10 \<and>
   top_countries_data twelve_countries =
     [(''JP'', 4), (''FR'', 5), (''LU'', 6), (''AT'', 7), (''IT'', 8), (''ES'', 9),
      (''KR'', 10), (''GR'', 11), (''CH'', 12), (''DE'', 14)] \<and>
   top_countries twelve_countries =
     [''DE'', ''CH'', ''GR'', ''KR'', ''ES'', ''IT'', ''AT'', ''LU'', ''FR'', ''JP''] \<and>
   length (top_products_data twelve_countries) = 10 \<and>
   length (monthly_country_sales twelve_countries) = 10"
proof -
  note all = top_10_selections [of twelve_countries]
  from all have a: "length (top_countries_data twelve_countries) \<le> 10"
    by (elim conjE)
  from all have b: "sorted (map snd (top_countries_data twelve_countries))"
    by (elim conjE)
  from all have c: "sorted (rev (map snd (top_countries_series twelve_countries)))"
    by (elim conjE)
  from all have d:
    "card ((\<lambda>p. snd (fst p)) ` set (monthly_country_sales twelve_countries)) \<le> 10"
    by (elim conjE)
  have e: "length (top_products_data twelve_countries) = 10"
    by (simp add: top_products_data_twelve)
  have f: "length (monthly_country_sales twelve_countries) = 10"
    by (simp add: monthly_country_sales_twelve)
  show ?thesis
    by (intro conjI a b c d e f top_countries_data_twelve top_countries_twelve)
qed

section \<open>The export\<close>

text \<open>
  C8. The exported text is the monthly sales, one line for every month, under a header
  line; the header names the two columns \<open>InvoiceDate\<close> and \<open>Sales\<close>, not
  \<open>Month\<close> and \<open>Sales\<close>.
\<close>

theorem export_header:
  "csv str_index str_value df =
     ''InvoiceDate,Sales'' @ [CHR 0x0A] @
     concat (map (\<lambda>(m, v). str_index m @ '','' @ str_value v @ [CHR 0x0A]) (monthly_sales df)) \<and>
   csv_header (to_frame ''Sales'' (monthly_sales_series df)) = [''InvoiceDate'', ''Sales''] \<and>
   csv_header (to_frame ''Sales'' (monthly_sales_series df)) \<noteq> [''Month'', ''Sales'']"
proof -
  have line: "csv_line [a, b] = a @ '','' @ b @ [CHR 0x0A]" for a b
    by (simp add: csv_line_def)
  have "csv_line \<circ> (\<lambda>(k, v). [str_index k, str_value v]) =
        (\<lambda>(m, v). str_index m @ '','' @ str_value v @ [CHR 0x0A])"
    by (simp add: fun_eq_iff line)
  then show ?thesis
    by (simp add: csv_def to_csv_def csv_header_def to_frame_def monthly_sales_series_def line)
qed

section \<open>The correlation matrix\<close>











section \<open>The script on a selection without rows\<close>

text \<open>
  The aggregations of the empty table, as expressions: the six grouped ones are empty,
  and the correlation matrix has its three rows and three columns with every entry
  undefined.
\<close>

lemma groupby_Nil: "groupby key [] = []"
  by (simp add: groupby_def groups_of_def)

lemma filtered_df_empty_interval:
  assumes "end < start"
  shows "filtered_df df start end c = []"
proof -
  have "\<not> in_selection start end c r" for r
    using assms by (auto simp: in_selection_def)
  then show ?thesis by (simp add: filtered_df_filter)
qed

lemma aggregations_Nil:
  "monthly_sales [] = []" "monthly_country_sales [] = []" "hourly_sales (Hour_of []) [] = []"
  "top_products_data [] = []" "top_countries_data [] = []" "customer_orders [] = []"
  by (simp_all add: monthly_sales_def monthly_country_sales_def hourly_sales_def Hour_of_def
      top_products_data_def top_countries_data_def customer_orders_def groupby_Nil
      agg_sum_def agg_nunique_def sort_values_def tail_def)

lemma corr_matrix_Nil:
  "corr_matrix [] = [[None, None, None], [None, None, None], [None, None, None]]"
  by (simp add: corr_matrix_def corr_def numeric_columns_def pearson_def)

text \<open>
  Each series that is handed to \<open>px.line\<close> or \<open>px.bar\<close> as \<open>x\<close> and \<open>y\<close> is
  empty exactly when the selection is.
\<close>

lemma avg_order_value_returns:
  "avg_order_value df =
     Inr (if total_orders df = 0 then 0 else total_sales df / real (total_orders df))"
  by (simp add: avg_order_value_def truediv_def)

lemma agg_sum_groupby_Nil_iff: "agg_sum col (groupby key df) = [] \<longleftrightarrow> df = []"
proof -
  have "agg_sum col (groupby key df) = [] \<longleftrightarrow> fst ` set (agg_sum col (groupby key df)) = {}"
    by simp
  also have "\<dots> \<longleftrightarrow> key ` set df = {}" by (simp only: keys_agg_sum_groupby)
  also have "\<dots> \<longleftrightarrow> df = []" by simp
  finally show ?thesis .
qed

lemma tail_sort_values_Nil_iff: "tail 10 (sort_values s) = [] \<longleftrightarrow> s = []"
proof -
  have "length (sort_values s) = length s" by (simp add: sort_values_def)
  then have "tail 10 (sort_values s) = [] \<longleftrightarrow> length s \<le> length s - 10"
    by (simp add: tail_def)
  also have "\<dots> \<longleftrightarrow> s = []" by (cases s) auto
  finally show ?thesis .
qed

lemma monthly_sales_Nil_iff: "monthly_sales df = [] \<longleftrightarrow> df = []"
  by (simp add: monthly_sales_def agg_sum_groupby_Nil_iff)

lemma hourly_sales_Nil_iff: "hourly_sales (Hour_of df) df = [] \<longleftrightarrow> df = []"
  by (simp add: hourly_sales_def agg_sum_groupby_Nil_iff Hour_of_def zip_eq_Nil_iff)

lemma top_products_data_Nil_iff: "top_products_data df = [] \<longleftrightarrow> df = []"
  by (simp add: top_products_data_def tail_sort_values_Nil_iff agg_sum_groupby_Nil_iff)

lemma top_countries_data_Nil_iff: "top_countries_data df = [] \<longleftrightarrow> df = []"
  by (simp add: top_countries_data_def tail_sort_values_Nil_iff agg_sum_groupby_Nil_iff)

lemma px_xy_series: "px_xy (map f s) (map g s) = (if s = [] then Inl ValueError else Inr ())"
  by (simp add: px_xy_def)

lemma rows_index_copy: "rows (index_copy f (mask (rows f) s e c)) = filtered_df (rows f) s e c"
  by (simp add: index_copy_def filtered_df_def)

text \<open>
  The script in one equation: on a selection without rows it ends at line 128 with the
  \<open>ValueError\<close> of \<open>px.line\<close>, before the column \<open>Hour\<close> is assigned and before any
  of the later aggregations is computed; on any other selection it runs to its end.
\<close>

lemma dashboard_eq:
  "dashboard st df start end c =
     (let F = filtered_df (rows (st ! df)) start end c;
          copy = index_copy (st ! df) (mask (rows (st ! df)) start end c)
      in if F = [] then (st @ [copy], Inl (Chart ValueError))
         else (st @ [copy\<lparr>Hour := Some (Hour_of F)\<rparr>],
               Inr \<lparr>out_total_sales = total_sales F, out_total_orders = total_orders F,
                    out_total_customers = total_customers F,
                    out_avg_order_value =
                      (if total_orders F = 0 then 0 else total_sales F / real (total_orders F)),
                    out_monthly_sales = monthly_sales F,
                    out_monthly_country_sales = monthly_country_sales F,
                    out_hourly_sales = hourly_sales (Hour_of F) F,
                    out_top_products_data = top_products_data F,
                    out_top_countries_data = top_countries_data F,
                    out_customer_orders = customer_orders F,
                    out_corr_matrix = corr_matrix F\<rparr>))"
  by (simp add: dashboard_def alloc_def assign_Hour_def hourly_sales_of_def Let_def
      avg_order_value_returns px_xy_series rows_index_copy monthly_sales_Nil_iff
      hourly_sales_Nil_iff top_products_data_Nil_iff top_countries_data_Nil_iff)

lemma script_ends_iff:
  "snd (dashboard st df start end c) = Inl (Chart ValueError) \<longleftrightarrow>
     filtered_df (rows (st ! df)) start end c = []"
  by (simp add: dashboard_eq Let_def)

text \<open>
  C6. An interval that ends before it starts selects no row of any table, and the
  filter does not fail. The script does: the monthly trend of the empty selection is
  empty, \<open>px.line\<close> of line 128 gets two sequences without elements and raises
  \<open>ValueError\<close>, and the script ends there, with the store holding the loaded table
  and the empty copy. None of the six later aggregations is computed.
\<close>

theorem empty_interval_ends_script:
  assumes "end < start"
  shows "filtered_df table start end selected_country = [] \<and>
     monthly_sales (filtered_df (rows (st ! df)) start end selected_country) = [] \<and>
     snd (dashboard st df start end selected_country) = Inl (Chart ValueError) \<and>
     fst (dashboard st df start end selected_country) =
       st @ [index_copy (st ! df) (mask (rows (st ! df)) start end selected_country)]"
  by (simp add: dashboard_eq Let_def filtered_df_empty_interval [OF assms] aggregations_Nil)

theorem empty_interval_ends_script_witness:
  "((2021, 1, 1) :: date) < (2021, 1, 2) \<and>
   filtered_df example_df (2021, 1, 2) (2021, 1, 1) ''All'' = [] \<and>
   dashboard [\<lparr>rows = example_df, Hour = None\<rparr>] 0 (2021, 1, 2) (2021, 1, 1) ''All'' =
     ([\<lparr>rows = example_df, Hour = None\<rparr>, \<lparr>rows = [], Hour = None\<rparr>],
      Inl (Chart ValueError))"
proof -
  let ?st = "[\<lparr>rows = example_df, Hour = None\<rparr>]"
  have less: "((2021, 1, 1) :: date) < (2021, 1, 2)" by simp
  note all = empty_interval_ends_script [OF less, of example_df "''All''" ?st 0]
  from all have empty: "filtered_df example_df (2021, 1, 2) (2021, 1, 1) ''All'' = []"
    by (elim conjE)
  from all have result:
    "snd (dashboard ?st 0 (2021, 1, 2) (2021, 1, 1) ''All'') = Inl (Chart ValueError)"
    by (elim conjE)
  from all have "fst (dashboard ?st 0 (2021, 1, 2) (2021, 1, 1) ''All'') =
       ?st @ [index_copy (?st ! 0) (mask (rows (?st ! 0)) (2021, 1, 2) (2021, 1, 1) ''All'')]"
    by (elim conjE)
  moreover have "index_copy (?st ! 0) (mask (rows (?st ! 0)) (2021, 1, 2) (2021, 1, 1) ''All'')
      = \<lparr>rows = [], Hour = None\<rparr>"
    using empty by (simp add: index_copy_def filtered_df_def)
  ultimately have store:
    "fst (dashboard ?st 0 (2021, 1, 2) (2021, 1, 1) ''All'') =
       [\<lparr>rows = example_df, Hour = None\<rparr>, \<lparr>rows = [], Hour = None\<rparr>]"
    by simp
  have "dashboard ?st 0 (2021, 1, 2) (2021, 1, 1) ''All'' =
     ([\<lparr>rows = example_df, Hour = None\<rparr>, \<lparr>rows = [], Hour = None\<rparr>],
      Inl (Chart ValueError))"
    using store result by (simp add: prod_eq_iff)
  with less empty show ?thesis by (intro conjI)
qed

text \<open>
  The same happens for an interval in order when no row is selected: the country
  \<open>DE\<close> has rows in March only, and January to February with \<open>DE\<close> ends the script.
\<close>

lemma country_without_rows_ends_script:
  "filtered_df (example_df @ twelve_countries) (2021, 1, 1) (2021, 2, 28) ''DE'' = [] \<and>
   snd (dashboard [\<lparr>rows = example_df @ twelve_countries, Hour = None\<rparr>] 0
          (2021, 1, 1) (2021, 2, 28) ''DE'') = Inl (Chart ValueError)"
proof -
  have empty: "filtered_df (example_df @ twelve_countries) (2021, 1, 1) (2021, 2, 28) ''DE'' = []"
    by (simp add: filtered_df_filter in_selection_def example_df_def twelve_countries_def
        one_row_def dt_date_def)
  have "snd (dashboard [\<lparr>rows = example_df @ twelve_countries, Hour = None\<rparr>] 0
          (2021, 1, 1) (2021, 2, 28) ''DE'') = Inl (Chart ValueError)"
    unfolding script_ends_iff using empty by simp
  with empty show ?thesis by (rule conjI)
qed

section \<open>The loaded table and the filtered copy\<close>

text \<open>
  The store tells an object from its copy: assigning the column \<open>Hour\<close> to the object
  at an address changes that object. So the statement below would fail had line 92
  handed on the loaded table itself.
\<close>

lemma assign_Hour_changes_object:
  assumes "a < length st" and "Hour (st ! a) = None"
  shows "assign_Hour st a ! a \<noteq> st ! a"
proof
  assume "assign_Hour st a ! a = st ! a"
  then have "Hour (assign_Hour st a ! a) = Hour (st ! a)" by simp
  with assms show False by (simp add: assign_Hour_def)
qed

text \<open>
  C10. Running the script from the filter on, to its last chart or to the exception that
  ends it, leaves every object that existed before as it was, the loaded table among
  them, rows and columns. The script makes one new object, the filtered copy. When the
  selection has rows, the column \<open>Hour\<close> of line 161 is assigned to that copy; when
  it has none, the script ends before line 161 and the copy has the columns it was
  made with.
\<close>

theorem loaded_table_never_mutated:
  assumes "df < length st"
  shows "fst (dashboard st df start end selected_country) ! df = st ! df \<and>
     take (length st) (fst (dashboard st df start end selected_country)) = st \<and>
     length (fst (dashboard st df start end selected_country)) = Suc (length st) \<and>
     rows (fst (dashboard st df start end selected_country) ! length st) =
       filtered_df (rows (st ! df)) start end selected_country \<and>
     Hour (fst (dashboard st df start end selected_country) ! length st) =
       (if filtered_df (rows (st ! df)) start end selected_country = []
        then map_option
               (\<lambda>h. boolean_index h (mask (rows (st ! df)) start end selected_country))
               (Hour (st ! df))
        else Some (Hour_of (filtered_df (rows (st ! df)) start end selected_country)))"
  using assms by (simp add: dashboard_eq Let_def nth_append index_copy_def filtered_df_def)

theorem loaded_table_never_mutated_witness:
  "(0 :: nat) < length [\<lparr>rows = example_df, Hour = None\<rparr>] \<and>
   fst (dashboard [\<lparr>rows = example_df, Hour = None\<rparr>] 0 (2021, 1, 1) (2021, 1, 31) ''All'') ! 0
     = \<lparr>rows = example_df, Hour = None\<rparr> \<and>
   fst (dashboard [\<lparr>rows = example_df, Hour = None\<rparr>] 0 (2021, 1, 1) (2021, 1, 31) ''All'') ! 1
     = \<lparr>rows = [hd example_df], Hour = Some [10]\<rparr>"
proof -
  let ?st = "[\<lparr>rows = example_df, Hour = None\<rparr>]"
  let ?new = "fst (dashboard ?st 0 (2021, 1, 1) (2021, 1, 31) ''All'') ! 1"
  have valid: "(0 :: nat) < length ?st" by simp
  have sel: "filtered_df example_df (2021, 1, 1) (2021, 1, 31) ''All'' = [hd example_df]"
    by (simp add: filtered_df_filter in_selection_def example_df_def dt_date_def)
  have hours: "Hour_of [hd example_df] = [10]"
    by (simp add: Hour_of_def dt_hour_def example_df_def)
  have here: "?st ! 0 = \<lparr>rows = example_df, Hour = None\<rparr>" and len: "length ?st = 1"
    by simp_all
  note kept = loaded_table_never_mutated [OF valid, of "(2021, 1, 1)" "(2021, 1, 31)" "''All''"]
  from kept have
    "fst (dashboard ?st 0 (2021, 1, 1) (2021, 1, 31) ''All'') ! 0 = ?st ! 0" by (elim conjE)
  then have first: "fst (dashboard ?st 0 (2021, 1, 1) (2021, 1, 31) ''All'') ! 0
     = \<lparr>rows = example_df, Hour = None\<rparr>"
    by (simp only: here)
  from kept have "rows (fst (dashboard ?st 0 (2021, 1, 1) (2021, 1, 31) ''All'') ! length ?st) =
       filtered_df (rows (?st ! 0)) (2021, 1, 1) (2021, 1, 31) ''All''"
    by (elim conjE)
  then have r: "rows ?new = [hd example_df]"
    by (simp only: here len frame.simps sel)
  from kept have "Hour (fst (dashboard ?st 0 (2021, 1, 1) (2021, 1, 31) ''All'') ! length ?st) =
       (if filtered_df (rows (?st ! 0)) (2021, 1, 1) (2021, 1, 31) ''All'' = []
        then map_option
               (\<lambda>h. boolean_index h (mask (rows (?st ! 0)) (2021, 1, 1) (2021, 1, 31) ''All''))
               (Hour (?st ! 0))
        else Some (Hour_of (filtered_df (rows (?st ! 0)) (2021, 1, 1) (2021, 1, 31) ''All'')))"
    by (elim conjE)
  then have h: "Hour ?new = Some [10]"
    by (simp only: here len frame.simps sel hours list.simps if_False)
  from r h have second: "?new = \<lparr>rows = [hd example_df], Hour = Some [10]\<rparr>"
    by (cases ?new) simp
  from valid first second show ?thesis by (intro conjI)
qed

end
